theory Spec2Isabelle
  imports Main
begin

section \<open>Data model (types.ts)\<close>

text \<open>
  A JavaScript string is a sequence of UTF-16 code units. Literals of the source that are
  plain ASCII are written with \<open>lit\<close>.
\<close>

type_synonym jsstring = "nat list"

definition lit :: "string \<Rightarrow> jsstring" where
  "lit s = map of_char s"

text \<open>
  \<open>interface Question\<close>. The field \<open>id\<close> of the source is called \<open>qid\<close> here
  (\<open>id\<close> is the identity function of HOL).
\<close>

record Question =
  qid :: int
  text_q :: jsstring
  explanation :: jsstring
  category :: jsstring
  searchQuery :: jsstring

text \<open>
  \<open>interface Answer\<close>. The field \<open>value\<close> of the source is called \<open>val\<close> here;
  the optional \<open>comment\<close> is \<open>None\<close> when the source has \<open>undefined\<close>.
\<close>

record Answer =
  questionId :: int
  val :: int
  isImportant :: bool
  comment :: "jsstring option"

datatype AppState = INTRO | LOADING_QUESTIONS | QUIZ | ANALYZING | RESULTS | ERROR

section \<open>JavaScript library functions used by the source\<close>

text \<open>\<open>String.prototype.includes\<close>: the needle occurs as a contiguous run.\<close>

fun starts_with :: "jsstring \<Rightarrow> jsstring \<Rightarrow> bool" where
  "starts_with hay [] = True"
| "starts_with [] (n # ns) = False"
| "starts_with (h # hs) (n # ns) = (h = n \<and> starts_with hs ns)"

fun js_includes :: "jsstring \<Rightarrow> jsstring \<Rightarrow> bool" where
  "js_includes [] needle = starts_with [] needle"
| "js_includes (h # hs) needle = (starts_with (h # hs) needle \<or> js_includes hs needle)"

text \<open>
  \<open>String.prototype.trim\<close> removes the code units of WhiteSpace and LineTerminator
  (ECMAScript) from both ends.
\<close>

definition js_whitespace :: "nat \<Rightarrow> bool" where
  "js_whitespace c \<longleftrightarrow>
     c \<in> {0x09, 0x0A, 0x0B, 0x0C, 0x0D, 0x20, 0xA0, 0x1680, 0x2028, 0x2029, 0x202F,
          0x205F, 0x3000, 0xFEFF} \<or> (0x2000 \<le> c \<and> c \<le> 0x200A)"

definition trim :: "jsstring \<Rightarrow> jsstring" where
  "trim s = rev (dropWhile js_whitespace (rev (dropWhile js_whitespace s)))"

text \<open>\<open>Array.prototype.findIndex\<close>, with \<open>None\<close> for the source's \<open>-1\<close>.\<close>

fun findIndex :: "('a \<Rightarrow> bool) \<Rightarrow> 'a list \<Rightarrow> nat option" where
  "findIndex P [] = None"
| "findIndex P (x # xs) =
     (if P x then Some 0 else map_option Suc (findIndex P xs))"

section \<open>The retry policy (services/geminiService.ts, \<open>retryOperation\<close>)\<close>

text \<open>A thrown value: an object whose \<open>message\<close> may be missing.\<close>

datatype js_error = Error (message: "jsstring option")

text \<open>
  \<open>error.message?.includes('429') || error.message?.includes('503') ||
  error.message?.includes('quota')\<close>
\<close>

definition isRateLimit :: "js_error \<Rightarrow> bool" where
  "isRateLimit e =
     (case message e of
        None \<Rightarrow> False
      | Some m \<Rightarrow> js_includes m (lit ''429'') \<or> js_includes m (lit ''503'') \<or> js_includes m (lit ''quota''))"

text \<open>
  The operation is called once per loop round; \<open>operation i\<close> is what its call in round
  \<open>i\<close> settles to (\<open>Inl\<close> a rejection, \<open>Inr\<close> the value). A run of \<open>retryOperation\<close>
  yields the value it settles to, the delays it slept (ms, in order) and the number of calls
  it made.
\<close>

record 'a retry_run =
  settled :: "js_error + 'a"
  slept :: "nat list"
  calls :: nat

function retry_loop ::
  "(nat \<Rightarrow> js_error + 'a) \<Rightarrow> nat \<Rightarrow> nat \<Rightarrow> nat \<Rightarrow> nat list \<Rightarrow> 'a retry_run" where
  "retry_loop operation maxRetries i delay waits =
     (if i < maxRetries then
        (case operation i of
           Inr v \<Rightarrow> \<lparr>settled = Inr v, slept = waits, calls = i + 1\<rparr>
         | Inl e \<Rightarrow>
             if i = maxRetries - 1 \<or> \<not> isRateLimit e
             then \<lparr>settled = Inl e, slept = waits, calls = i + 1\<rparr>
             else retry_loop operation maxRetries (i + 1) (delay * 2) (waits @ [delay]))
      else \<lparr>settled = Inl (Error (Some (lit ''Max retries exceeded''))), slept = waits,
             calls = i\<rparr>)"
  by pat_completeness auto
termination
  by (relation "measure (\<lambda>(operation, maxRetries, i, delay, waits). maxRetries - i)") auto

definition retryOperation :: "(nat \<Rightarrow> js_error + 'a) \<Rightarrow> nat \<Rightarrow> 'a retry_run" where
  "retryOperation operation maxRetries = retry_loop operation maxRetries 0 1000 []"

section \<open>Answer capture (components/Quiz.tsx)\<close>

text \<open>
  The variables of one render of \<open>Quiz\<close> that \<open>saveAnswer\<close> and \<open>goToNext\<close> read: the
  props \<open>questions\<close> and \<open>totalCount\<close> and four of the state variables. A callback created
  during a render keeps the values of that render.
\<close>

record render =
  questions :: "Question list"
  totalCount :: "nat option"
  currentIndex :: nat
  answers :: "Answer list"
  isImportant :: bool
  comment :: jsstring

text \<open>
  A scheduled \<open>setTimeout(() => goToNext(value), AUTO_ADVANCE_DELAY)\<close>: the time at which
  it is due, the selected value and the render whose \<open>goToNext\<close> the callback holds.
\<close>

record timeout =
  fireAt :: nat
  selected :: int
  closure :: render

text \<open>
  The component's state. \<open>autoAdvanceTimer\<close> is the timer of \<open>autoAdvanceTimerRef\<close>
  while it is pending; \<open>None\<close> once it is cleared or has fired (the source keeps the
  handle of a dead timer in the ref, and \<open>clearTimeout\<close> of it does nothing).
\<close>

record Quiz = render +
  selectedValue :: "int option"
  isNuancing :: bool
  isAutoAdvancing :: bool
  autoAdvanceTimer :: "timeout option"

definition AUTO_ADVANCE_DELAY :: nat where
  "AUTO_ADVANCE_DELAY = 5500"

definition TypeError :: js_error where
  "TypeError = Error (Some (lit ''Cannot read properties of undefined (reading id)''))"

text \<open>\<open>questions[currentIndex]\<close>, \<open>None\<close> for \<open>undefined\<close>.\<close>

definition currentQuestion :: "'a render_scheme \<Rightarrow> Question option" where
  "currentQuestion r =
     (if currentIndex r < length (questions r) then Some (questions r ! currentIndex r) else None)"

text \<open>\<open>totalCount || questions.length\<close>: a missing or zero \<open>totalCount\<close> is falsy.\<close>

definition finalCount :: "'a render_scheme \<Rightarrow> nat" where
  "finalCount r =
     (case totalCount r of
        None \<Rightarrow> length (questions r)
      | Some n \<Rightarrow> if n = 0 then length (questions r) else n)"

text \<open>The effect with dependencies \<open>[currentIndex, currentQuestion, answers]\<close>.\<close>

definition question_effect :: "Quiz \<Rightarrow> Quiz" where
  "question_effect q =
     (let q1 = q\<lparr>autoAdvanceTimer := None, isAutoAdvancing := False\<rparr> in
      case find (\<lambda>a. Some (questionId a) = map_option qid (currentQuestion q)) (answers q) of
        Some existing \<Rightarrow>
          q1\<lparr>selectedValue := Some (val existing),
             isImportant := Answer.isImportant existing,
             comment := (case Answer.comment existing of None \<Rightarrow> [] | Some c \<Rightarrow> c),
             isNuancing := (case Answer.comment existing of None \<Rightarrow> False | Some c \<Rightarrow> c \<noteq> [])\<rparr>
      | None \<Rightarrow>
          q1\<lparr>selectedValue := None, isImportant := False, comment := [], isNuancing := False\<rparr>)"

text \<open>
  One commit of React: the effect runs when a dependency differs from the previous render.
  (The source compares \<open>answers\<close> by reference; it replaces the array only in
  \<open>saveAnswer\<close>, where \<open>currentIndex\<close> changes as well or the component is unmounted.)
\<close>

definition rerender :: "Quiz \<Rightarrow> Quiz \<Rightarrow> Quiz" where
  "rerender before after =
     (if currentIndex after \<noteq> currentIndex before
         \<or> currentQuestion after \<noteq> currentQuestion before
         \<or> answers after \<noteq> answers before
      then question_effect after else after)"

text \<open>The first render and its effects.\<close>

definition mount_Quiz :: "Question list \<Rightarrow> nat option \<Rightarrow> Quiz" where
  "mount_Quiz qs tc =
     question_effect
       \<lparr>questions = qs, totalCount = tc, currentIndex = 0, answers = [], isImportant = False,
        comment = [], selectedValue = None, isNuancing = False, isAutoAdvancing = False,
        autoAdvanceTimer = None\<rparr>"

text \<open>New props from the parent.\<close>

definition receive_questions :: "Question list \<Rightarrow> Quiz \<Rightarrow> Quiz" where
  "receive_questions qs q = rerender q (q\<lparr>questions := qs\<rparr>)"

text \<open>The \<open>answerObject\<close> of \<open>saveAnswer\<close> for the current question \<open>cq\<close>.\<close>

definition answerObject :: "'a render_scheme \<Rightarrow> Question \<Rightarrow> int \<Rightarrow> Answer" where
  "answerObject r cq v =
     \<lparr>questionId = qid cq, val = v, Answer.isImportant = isImportant r,
      Answer.comment = (if trim (comment r) \<noteq> [] then Some (comment r) else None)\<rparr>"

text \<open>
  \<open>saveAnswer\<close> returns \<open>newAnswers\<close>; reading \<open>currentQuestion.id\<close> throws when
  there is no current question.
\<close>

definition saveAnswer :: "'a render_scheme \<Rightarrow> int \<Rightarrow> js_error + Answer list" where
  "saveAnswer r v =
     (case currentQuestion r of
        None \<Rightarrow> Inl TypeError
      | Some cq \<Rightarrow>
          (let newAnswers = answers r;
               existingIndex = findIndex (\<lambda>a. questionId a = qid cq) newAnswers
           in Inr (case existingIndex of
                     Some i \<Rightarrow> newAnswers[i := answerObject r cq v]
                   | None \<Rightarrow> newAnswers @ [answerObject r cq v])))"

text \<open>
  Successive commits: each \<open>(index, value, isImportant, comment)\<close> is saved with
  \<open>saveAnswer\<close> for the question at that index, with that capture state, on the answers
  the commit before left.
\<close>

fun commit_all :: "render \<Rightarrow> (nat \<times> int \<times> bool \<times> jsstring) list \<Rightarrow> js_error + Answer list" where
  "commit_all r [] = Inr (answers r)"
| "commit_all r ((i, v, imp, com) # cs) =
     (case saveAnswer (r\<lparr>currentIndex := i, isImportant := imp, comment := com\<rparr>) v of
        Inl e \<Rightarrow> Inl e
      | Inr newAnswers \<Rightarrow> commit_all (r\<lparr>answers := newAnswers\<rparr>) cs)"

text \<open>
  What a handler leaves behind: the component still shown, \<open>onComplete\<close> called with the
  final answers (the parent then unmounts the component), or an uncaught exception.
\<close>

datatype quiz_step = Showing Quiz | Completed "Answer list" | Threw js_error

text \<open>
  \<open>goToNext\<close> of the render \<open>r\<close>, run while the component is in state \<open>q\<close>:
  \<open>setAnswers(newAnswers)\<close> and \<open>setCurrentIndex(prev => prev + 1)\<close> act on \<open>q\<close>.
\<close>

definition goToNext :: "render \<Rightarrow> int \<Rightarrow> Quiz \<Rightarrow> quiz_step" where
  "goToNext r v q =
     (case saveAnswer r v of
        Inl e \<Rightarrow> Threw e
      | Inr finalAnswers \<Rightarrow>
          if int (currentIndex r) < int (length (questions r)) - 1
          then Showing (rerender q (q\<lparr>answers := finalAnswers, currentIndex := currentIndex q + 1\<rparr>))
          else if length (questions r) < finalCount r then Completed finalAnswers
          else Completed finalAnswers)"

definition handleNextClick :: "Quiz \<Rightarrow> quiz_step" where
  "handleNextClick q =
     (case selectedValue q of
        None \<Rightarrow> Showing q
      | Some v \<Rightarrow> goToNext (render.truncate q) v q)"


text \<open>\<open>handleSelection\<close>, called at time \<open>now\<close> (ms).\<close>

definition handleSelection :: "nat \<Rightarrow> int \<Rightarrow> Quiz \<Rightarrow> Quiz" where
  "handleSelection now v q =
     (let q1 = q\<lparr>selectedValue := Some v\<rparr> in
      if isNuancing q then q1
      else q1\<lparr>isAutoAdvancing := True,
              autoAdvanceTimer :=
                Some \<lparr>fireAt = now + AUTO_ADVANCE_DELAY, selected = v, closure = render.truncate q\<rparr>\<rparr>)"

definition stopAutoAdvance :: "Quiz \<Rightarrow> Quiz" where
  "stopAutoAdvance q = q\<lparr>autoAdvanceTimer := None, isAutoAdvancing := False, isNuancing := True\<rparr>"


text \<open>
  The edits of the capture state that commit nothing, each with the condition under which
  its control is rendered: the option buttons and the importance toggle whenever there is a
  current question, the pause button while \<open>isAutoAdvancing\<close>, the comment box and its
  close button while \<open>!isAutoAdvancing && isNuancing\<close>.
\<close>

datatype edit =
    Select nat int
  | ToggleImportant
  | Pause
  | TypeComment jsstring
  | CloseNuance

fun edit_step :: "Quiz \<Rightarrow> edit \<Rightarrow> Quiz" where
  "edit_step q (Select now v) =
     (if currentQuestion q \<noteq> None then handleSelection now v q else q)"
| "edit_step q ToggleImportant =
     (if currentQuestion q \<noteq> None then q\<lparr>isImportant := \<not> isImportant q\<rparr> else q)"
| "edit_step q Pause =
     (if currentQuestion q \<noteq> None \<and> isAutoAdvancing q then stopAutoAdvance q else q)"
| "edit_step q (TypeComment s) =
     (if currentQuestion q \<noteq> None \<and> \<not> isAutoAdvancing q \<and> isNuancing q
      then q\<lparr>comment := s\<rparr> else q)"
| "edit_step q CloseNuance =
     (if currentQuestion q \<noteq> None \<and> \<not> isAutoAdvancing q \<and> isNuancing q
      then q\<lparr>isNuancing := False\<rparr> else q)"

section \<open>Session orchestration (App.tsx)\<close>

definition TARGET_QUESTIONS :: nat where
  "TARGET_QUESTIONS = 50"

text \<open>
  The four state variables that make up a session. The analysis result is passed through
  uninterpreted, so its type is a parameter.
\<close>

record 'r session =
  state :: AppState
  questions :: "Question list"
  answers :: "Answer list"
  result :: "'r option"

text \<open>\<open>interface SavedSession\<close>; \<open>lastUpdated\<close> is a reading of \<open>Date.now()\<close> (ms).\<close>

record 'r SavedSession = "'r session" +
  lastUpdated :: int

text \<open>
  The item stored under \<open>SESSION_KEY\<close>: a text on which \<open>JSON.parse\<close> throws, or one
  that parses into a \<open>SavedSession\<close>.
\<close>

datatype 'r stored = Unparsable | Saved "'r SavedSession"

text \<open>
  The two texts given to \<open>setError\<close>: the Swedish messages for a failed question
  generation and for a failed analysis.
\<close>

datatype user_message = QuestionsFailed | AnalysisFailed

text \<open>
  The state of \<open>App\<close>: the session variables, \<open>error\<close>, the ref \<open>currentSessionId\<close>
  and the item of \<open>localStorage\<close> under \<open>SESSION_KEY\<close> (\<open>None\<close> when \<open>getItem\<close>
  gives nothing).
\<close>

record 'r App = "'r session" +
  error :: "user_message option"
  currentSessionId :: int
  localStorage :: "'r stored option"

definition initial_App :: "'r stored option \<Rightarrow> 'r App" where
  "initial_App item =
     \<lparr>state = INTRO, questions = [], answers = [], result = None, error = None,
      currentSessionId = 0, localStorage = item\<rparr>"

definition TTL :: int where
  "TTL = 1000 * 60 * 60 * 24"

text \<open>The effect that loads the session on mount, run when \<open>Date.now()\<close> reads \<open>now\<close>.\<close>

definition load_session :: "int \<Rightarrow> 'r App \<Rightarrow> 'r App" where
  "load_session now s =
     (case localStorage s of
        None \<Rightarrow> s
      | Some Unparsable \<Rightarrow> s\<lparr>localStorage := None\<rparr>
      | Some (Saved saved) \<Rightarrow>
          if now - lastUpdated saved < TTL
          then s\<lparr>questions := questions saved, answers := answers saved,
                 result := result saved, state := state saved\<rparr>
          else s)"


text \<open>
  A run of \<open>startQuiz\<close> between its awaits: waiting for the initial batch, or inside the
  background loop waiting for the first of the remaining batches (with the local
  \<open>currentTotalQuestions\<close>), or over. Each carries the \<open>sessionId\<close> of the run.
\<close>

datatype run =
    Initial int
  | Background int "Question list" "(nat \<times> int) list"
  | Returned

text \<open>\<open>startQuiz\<close> up to its first await, when \<open>Date.now()\<close> reads \<open>now\<close>.\<close>

definition startQuiz :: "int \<Rightarrow> 'r App \<Rightarrow> 'r App \<times> run" where
  "startQuiz now s =
     (let sessionId = now in
      (s\<lparr>currentSessionId := sessionId, state := LOADING_QUESTIONS, error := None,
         questions := []\<rparr>,
       Initial sessionId))"

text \<open>The head of \<open>for (const batch of batches)\<close>: the check before the next call.\<close>

definition next_batch :: "'r App \<Rightarrow> int \<Rightarrow> Question list \<Rightarrow> (nat \<times> int) list \<Rightarrow> run" where
  "next_batch s sessionId currentTotalQuestions batches =
     (case batches of
        [] \<Rightarrow> Returned
      | batch # rest \<Rightarrow>
          if currentSessionId s \<noteq> sessionId then Returned
          else Background sessionId currentTotalQuestions (batch # rest))"

text \<open>The de-dupe and merge of one background batch \<open>newQs\<close>.\<close>

definition uniqueNew :: "Question list \<Rightarrow> Question list \<Rightarrow> Question list" where
  "uniqueNew currentTotalQuestions newQs =
     (let existingIds = set (map qid currentTotalQuestions)
      in filter (\<lambda>q. qid q \<notin> existingIds) newQs)"

definition merge_questions :: "Question list \<Rightarrow> Question list \<Rightarrow> Question list" where
  "merge_questions unique prev =
     (let prevIds = set (map qid prev);
          validNew = filter (\<lambda>q. qid q \<notin> prevIds) unique
      in prev @ validNew)"

text \<open>
  The call a run is waiting for settles with \<open>outcome\<close> (\<open>Inl\<close> a rejection): the run
  continues to its next await or to its end.
\<close>

fun settle :: "js_error + Question list \<Rightarrow> 'r App \<Rightarrow> run \<Rightarrow> 'r App \<times> run" where
  "settle outcome s (Initial sessionId) =
     (case outcome of
        Inr initialQuestions \<Rightarrow>
          if currentSessionId s \<noteq> sessionId then (s, Returned)
          else
            (let s1 = s\<lparr>questions := initialQuestions, state := QUIZ\<rparr>
             in (s1, next_batch s1 sessionId initialQuestions [(15, 6), (15, 21), (15, 36)]))
      | Inl err \<Rightarrow>
          if currentSessionId s \<noteq> sessionId then (s, Returned)
          else (s\<lparr>error := Some QuestionsFailed, state := ERROR\<rparr>, Returned))"
| "settle outcome s (Background sessionId currentTotalQuestions batches) =
     (case outcome of
        Inr newQs \<Rightarrow>
          if currentSessionId s \<noteq> sessionId then (s, Returned)
          else
            (let unique = uniqueNew currentTotalQuestions newQs;
                 s1 = s\<lparr>questions := merge_questions unique (questions s)\<rparr>
             in (s1, next_batch s1 sessionId (currentTotalQuestions @ unique) (tl batches)))
      | Inl bgError \<Rightarrow> (s, Returned))"
| "settle outcome s Returned = (s, Returned)"

text \<open>
  \<open>generateQuestions\<close>: \<open>getAIClient\<close> throws without an API key, otherwise the request
  goes through \<open>retryOperation\<close> with the default \<open>maxRetries\<close>.
\<close>

definition generateQuestions :: "bool \<Rightarrow> (nat \<Rightarrow> js_error + Question list) \<Rightarrow> js_error + Question list" where
  "generateQuestions hasApiKey operation =
     (if \<not> hasApiKey then Inl (Error (Some (lit ''API Key is missing'')))
      else settled (retryOperation operation 3))"

text \<open>\<open>handleQuizComplete\<close> up to its await, and after it.\<close>

definition handleQuizComplete :: "Answer list \<Rightarrow> 'r App \<Rightarrow> 'r App" where
  "handleQuizComplete userAnswers s = s\<lparr>answers := userAnswers, state := ANALYZING\<rparr>"

definition analysis_settled :: "js_error + 'r \<Rightarrow> 'r App \<Rightarrow> 'r App" where
  "analysis_settled outcome s =
     (case outcome of
        Inr analysis \<Rightarrow> s\<lparr>result := Some analysis, state := RESULTS\<rparr>
      | Inl err \<Rightarrow> s\<lparr>error := Some AnalysisFailed, state := ERROR\<rparr>)"

text \<open>\<open>restart\<close>; \<open>confirmed\<close> is the answer to \<open>window.confirm\<close>.\<close>

definition restart :: "bool \<Rightarrow> 'r App \<Rightarrow> 'r App" where
  "restart confirmed s =
     (if confirmed
      then s\<lparr>currentSessionId := 0, questions := [], answers := [], result := None,
             state := INTRO, localStorage := None\<rparr>
      else s)"

text \<open>
  The button that continues a session; it is rendered in state \<open>INTRO\<close> when
  \<open>questions.length > 0\<close>.
\<close>

definition resume :: "'r App \<Rightarrow> 'r App" where
  "resume s =
     (if state s = INTRO \<and> length (questions s) > 0
      then s\<lparr>state := (if length (questions s) > 0 \<and> result s \<noteq> None then RESULTS else QUIZ)\<rparr>
      else s)"

text \<open>The \<open>Quiz\<close> that \<open>App\<close> mounts in state \<open>QUIZ\<close>.\<close>

definition quiz_of :: "'r App \<Rightarrow> Quiz option" where
  "quiz_of s =
     (if state s = QUIZ then Some (mount_Quiz (questions s) (Some TARGET_QUESTIONS)) else None)"

text \<open>
  The index of the first question without a stored Answer, in the words of the
  specification of \<open>resume\<close>.
\<close>

definition first_unanswered :: "Question list \<Rightarrow> Answer list \<Rightarrow> nat option" where
  "first_unanswered qs as =
     findIndex (\<lambda>q. find (\<lambda>a. questionId a = qid q) as = None) qs"

section \<open>Concrete inputs\<close>

definition example_question :: "int \<Rightarrow> Question" where
  "example_question i =
     \<lparr>qid = i, text_q = lit ''Sverige ska bygga nya karnkraftverk'', explanation = [],
      category = lit ''Energi'', searchQuery = []\<rparr>"

definition other_question :: "int \<Rightarrow> Question" where
  "other_question i =
     \<lparr>qid = i, text_q = lit ''Bensinskatten ska sankas'', explanation = [],
      category = lit ''Ekonomi'', searchQuery = []\<rparr>"

definition rate_limited :: js_error where
  "rate_limited = Error (Some (lit ''HTTP 429 Too Many Requests''))"


definition always_rate_limited :: "nat \<Rightarrow> js_error + Question list" where
  "always_rate_limited i = Inl rate_limited"


definition two_questions :: "Question list" where
  "two_questions = [example_question 1, other_question 2]"

definition five_questions :: "Question list" where
  "five_questions = map example_question [1, 2, 3, 4, 5]"

text \<open>A freshly mounted quiz over two questions.\<close>

definition fresh_quiz :: Quiz where
  "fresh_quiz = mount_Quiz two_questions (Some TARGET_QUESTIONS)"


text \<open>A reading of the clock, and a session started then whose initial batch has arrived.\<close>

definition clock :: int where
  "clock = 1700000000000"

definition loading_app :: "unit App" where
  "loading_app = fst (startQuiz clock (initial_App None))"

definition running_app :: "unit App" where
  "running_app = fst (settle (Inr five_questions) loading_app (Initial clock))"

definition running_run :: run where
  "running_run = snd (settle (Inr five_questions) loading_app (Initial clock))"

text \<open>
  Two background batches that each repeat the id 1 of an accumulated question: the first
  has two new ids, the second has the new id 6 twice.
\<close>

definition overlapping_batch :: "Question list" where
  "overlapping_batch = [other_question 1, example_question 6, example_question 7]"

definition repeating_batch :: "Question list" where
  "repeating_batch = [other_question 1, example_question 6, other_question 6]"

text \<open>
  The quiz of that session on the last of its five questions, the first four answered, and
  the answers once the fifth is committed.
\<close>

definition last_question_quiz :: Quiz where
  "last_question_quiz =
     \<lparr>render.questions = five_questions, totalCount = Some TARGET_QUESTIONS, currentIndex = 4,
      render.answers = map (\<lambda>i. \<lparr>questionId = i, val = 3, Answer.isImportant = False, Answer.comment = None\<rparr>) [1, 2, 3, 4],
      isImportant = True, comment = [], selectedValue = Some 5, isNuancing = False,
      isAutoAdvancing = False, autoAdvanceTimer = None\<rparr>"

definition five_answers :: "Answer list" where
  "five_answers = map (\<lambda>i. \<lparr>questionId = i, val = 3, Answer.isImportant = False, Answer.comment = None\<rparr>) [1, 2, 3, 4]
      @ [\<lparr>questionId = 5, val = 5, Answer.isImportant = True, Answer.comment = None\<rparr>]"



text \<open>
  The state after loading a stored snapshot that is in state \<open>INTRO\<close> with two questions
  and an Answer for the first.
\<close>

definition answered_first_app :: "unit App" where
  "answered_first_app =
     load_session clock
       (initial_App (Some (Saved
          \<lparr>state = INTRO, questions = two_questions,
           answers = [\<lparr>questionId = 1, val = 3, Answer.isImportant = False, Answer.comment = None\<rparr>],
           result = None, lastUpdated = clock\<rparr>)))"

section \<open>Auxiliary notions for the proofs\<close>

text \<open>The list that \<open>saveAnswer\<close> builds from \<open>answers\<close> for the id \<open>k\<close>.\<close>

definition upsert_at :: "int \<Rightarrow> Answer \<Rightarrow> Answer list \<Rightarrow> Answer list" where
  "upsert_at k a xs =
     (case findIndex (\<lambda>x. questionId x = k) xs of Some i \<Rightarrow> xs[i := a] | None \<Rightarrow> xs @ [a])"

text \<open>The Answer that a commit \<open>(index, value, isImportant, comment)\<close> stores.\<close>

definition committed :: "Question list \<Rightarrow> nat \<times> int \<times> bool \<times> jsstring \<Rightarrow> Answer" where
  "committed qs c =
     (case c of (i, v, imp, com) \<Rightarrow>
        \<lparr>questionId = qid (qs ! i), val = v, Answer.isImportant = imp,
         Answer.comment = (if trim com \<noteq> [] then Some com else None)\<rparr>)"

section \<open>The retry policy: proofs\<close>

lemma retryOperation_3:
  "retryOperation operation 3 =
     (case operation 0 of
        Inr v \<Rightarrow> \<lparr>settled = Inr v, slept = [], calls = 1\<rparr>
      | Inl e0 \<Rightarrow>
          if \<not> isRateLimit e0 then \<lparr>settled = Inl e0, slept = [], calls = 1\<rparr>
          else (case operation 1 of
                  Inr v \<Rightarrow> \<lparr>settled = Inr v, slept = [1000], calls = 2\<rparr>
                | Inl e1 \<Rightarrow>
                    if \<not> isRateLimit e1 then \<lparr>settled = Inl e1, slept = [1000], calls = 2\<rparr>
                    else \<lparr>settled = operation 2, slept = [1000, 2000], calls = 3\<rparr>))"
  unfolding retryOperation_def
  apply (subst retry_loop.simps)
  apply (subst retry_loop.simps)
  apply (subst retry_loop.simps)
  apply (auto split: sum.splits simp: numeral_2_eq_2)
  done

lemma isRateLimit_rate_limited: "isRateLimit rate_limited"
  by (simp add: rate_limited_def isRateLimit_def lit_def)


lemma retry_always_rate_limited:
  "retryOperation always_rate_limited 3 =
     \<lparr>settled = Inl rate_limited, slept = [1000, 2000], calls = 3\<rparr>"
  by (simp add: retryOperation_3 always_rate_limited_def isRateLimit_rate_limited)




section \<open>Answer capture: proofs\<close>

lemma upsert_at_Nil: "upsert_at k a [] = [a]"
  by (simp add: upsert_at_def)

lemma upsert_at_Cons:
  "upsert_at k a (x # xs) = (if questionId x = k then a # xs else x # upsert_at k a xs)"
  by (simp add: upsert_at_def split: option.splits)

lemma upsert_filter_eq:
  "questionId a = k \<Longrightarrow> distinct (map questionId xs) \<Longrightarrow>
   filter (\<lambda>x. questionId x = k) (upsert_at k a xs) = [a]"
  by (induction xs) (auto simp: upsert_at_Nil upsert_at_Cons filter_empty_conv image_iff)

lemma upsert_filter_neq:
  "questionId a = k \<Longrightarrow>
   filter (\<lambda>x. questionId x \<noteq> k) (upsert_at k a xs) = filter (\<lambda>x. questionId x \<noteq> k) xs"
  by (induction xs) (auto simp: upsert_at_Nil upsert_at_Cons)

lemma upsert_ids:
  "questionId a = k \<Longrightarrow>
   map questionId (upsert_at k a xs) =
     (if k \<in> set (map questionId xs) then map questionId xs else map questionId xs @ [k])"
  by (induction xs) (auto simp: upsert_at_Nil upsert_at_Cons)

lemma upsert_find:
  "questionId a = k \<Longrightarrow> find (\<lambda>x. questionId x = k) (upsert_at k a xs) = Some a"
  by (induction xs) (auto simp: upsert_at_Nil upsert_at_Cons)


lemma saveAnswer_upsert:
  "currentIndex r < length (render.questions r) \<Longrightarrow>
   saveAnswer r v =
     Inr (upsert_at (qid (render.questions r ! currentIndex r))
            (answerObject r (render.questions r ! currentIndex r) v) (render.answers r))"
  by (simp add: saveAnswer_def currentQuestion_def upsert_at_def Let_def)

lemma answerObject_id: "questionId (answerObject r cq v) = qid cq"
  by (simp add: answerObject_def)

lemma upsert_filter_other:
  "questionId a = k \<Longrightarrow> j \<noteq> k \<Longrightarrow>
   filter (\<lambda>x. questionId x = j) (upsert_at k a xs) = filter (\<lambda>x. questionId x = j) xs"
  by (induction xs) (auto simp: upsert_at_Nil upsert_at_Cons)

lemma commit_all_latest:
  assumes "\<forall>c \<in> set cs. fst c < length (render.questions r)"
    and "distinct (map questionId (render.answers r))"
  shows "\<exists>as. commit_all r cs = Inr as
     \<and> distinct (map questionId as)
     \<and> (\<forall>k. filter (\<lambda>a. questionId a = k) as =
           (if filter (\<lambda>c. qid (render.questions r ! fst c) = k) cs = []
            then filter (\<lambda>a. questionId a = k) (render.answers r)
            else [committed (render.questions r)
                    (last (filter (\<lambda>c. qid (render.questions r ! fst c) = k) cs))]))"
  using assms
proof (induction cs arbitrary: r)
  case Nil
  then show ?case by simp
next
  case (Cons c cs)
  obtain i v imp com where c: "c = (i, v, imp, com)" by (cases c) auto
  let ?qs = "render.questions r"
  let ?k0 = "qid (?qs ! i)"
  let ?a = "committed ?qs c"
  let ?as1 = "upsert_at ?k0 ?a (render.answers r)"
  have i: "i < length ?qs" using Cons.prems(1) c by simp
  have ida: "questionId ?a = ?k0" by (simp add: committed_def c)
  have sv: "saveAnswer (r\<lparr>currentIndex := i, isImportant := imp, comment := com\<rparr>) v = Inr ?as1"
    using i saveAnswer_upsert[of "r\<lparr>currentIndex := i, isImportant := imp, comment := com\<rparr>" v]
    by (simp add: answerObject_def committed_def c)
  have step: "commit_all r (c # cs) = commit_all (r\<lparr>render.answers := ?as1\<rparr>) cs"
    using sv by (simp add: c)
  have d: "distinct (map questionId ?as1)"
    using Cons.prems(2) by (simp add: upsert_ids ida)
  from Cons.IH[of "r\<lparr>render.answers := ?as1\<rparr>"] Cons.prems(1) d
  obtain as where as: "commit_all (r\<lparr>render.answers := ?as1\<rparr>) cs = Inr as"
    "distinct (map questionId as)"
    "\<And>k. filter (\<lambda>a. questionId a = k) as =
           (if filter (\<lambda>c. qid (?qs ! fst c) = k) cs = []
            then filter (\<lambda>a. questionId a = k) ?as1
            else [committed ?qs (last (filter (\<lambda>c. qid (?qs ! fst c) = k) cs))])"
    by auto
  have f1: "filter (\<lambda>a. questionId a = k) ?as1 =
              (if k = ?k0 then [?a] else filter (\<lambda>a. questionId a = k) (render.answers r))" for k
    using Cons.prems(2) by (simp add: upsert_filter_eq upsert_filter_other ida)
  have "filter (\<lambda>a. questionId a = k) as =
           (if filter (\<lambda>c. qid (?qs ! fst c) = k) (c # cs) = []
            then filter (\<lambda>a. questionId a = k) (render.answers r)
            else [committed ?qs (last (filter (\<lambda>c. qid (?qs ! fst c) = k) (c # cs)))])" for k
    using as(3)[of k] f1[of k] by (simp add: c)
  with as(1,2) step show ?case by simp
qed

lemma question_effect_render [simp]:
  "render.questions (question_effect q) = render.questions q"
  "totalCount (question_effect q) = totalCount q"
  "currentIndex (question_effect q) = currentIndex q"
  "render.answers (question_effect q) = render.answers q"
  "autoAdvanceTimer (question_effect q) = None"
  "isAutoAdvancing (question_effect q) = False"
  by (simp_all add: question_effect_def Let_def split: option.splits)


lemma goToNext_eq:
  assumes "currentIndex r < length (render.questions r)"
  shows "goToNext r v q =
     (if currentIndex r + 1 < length (render.questions r)
      then Showing (question_effect
             (q\<lparr>render.answers := upsert_at (qid (render.questions r ! currentIndex r))
                    (answerObject r (render.questions r ! currentIndex r) v) (render.answers r),
                currentIndex := currentIndex q + 1\<rparr>))
      else Completed (upsert_at (qid (render.questions r ! currentIndex r))
                    (answerObject r (render.questions r ! currentIndex r) v) (render.answers r)))"
proof -
  have "int (currentIndex r) < int (length (render.questions r)) - 1
          \<longleftrightarrow> currentIndex r + 1 < length (render.questions r)"
    by linarith
  then show ?thesis
    using assms by (simp add: goToNext_def saveAnswer_upsert rerender_def)
qed

lemma edit_step_render [simp]:
  "render.questions (edit_step q e) = render.questions q"
  "totalCount (edit_step q e) = totalCount q"
  "currentIndex (edit_step q e) = currentIndex q"
  "render.answers (edit_step q e) = render.answers q"
  by (cases e; simp add: handleSelection_def stopAutoAdvance_def Let_def)+

lemma foldl_edit_step_render [simp]:
  "render.questions (foldl edit_step q es) = render.questions q"
  "totalCount (foldl edit_step q es) = totalCount q"
  "currentIndex (foldl edit_step q es) = currentIndex q"
  "render.answers (foldl edit_step q es) = render.answers q"
  by (induction es arbitrary: q; simp)+


lemma truncate_fields [simp]:
  "render.questions (render.truncate q) = render.questions q"
  "totalCount (render.truncate q) = totalCount q"
  "currentIndex (render.truncate q) = currentIndex q"
  "render.answers (render.truncate q) = render.answers q"
  "isImportant (render.truncate q) = isImportant q"
  "comment (render.truncate q) = comment q"
  by (simp_all add: render.truncate_def)




lemma handleSelection_render [simp]:
  "render.questions (handleSelection t V q) = render.questions q"
  "totalCount (handleSelection t V q) = totalCount q"
  "currentIndex (handleSelection t V q) = currentIndex q"
  "render.answers (handleSelection t V q) = render.answers q"
  "selectedValue (handleSelection t V q) = Some V"
  by (simp_all add: handleSelection_def Let_def)






text \<open>
  C3. Take the answers of the component with at most one entry per question id (they start
  empty), and any sequence of commits, each on one of the questions. Every commit succeeds,
  and afterwards the answers still have at most one entry per question id. For every
  question id \<open>k\<close> that has a commit in the sequence they hold exactly one Answer, the one
  built from the value, the importance flag and the comment of the last commit on \<open>k\<close>
  (a comment that is empty after \<open>trim\<close> is stored as absent); for every other id the
  entries are the ones from before.
\<close>

theorem upsert_keeps_latest:
  assumes "\<forall>c \<in> set cs. fst c < length (render.questions r)"
    and "distinct (map questionId (render.answers r))"
  shows "\<exists>as. commit_all r cs = Inr as
     \<and> distinct (map questionId as)
     \<and> (\<forall>k. filter (\<lambda>a. questionId a = k) as =
           (if filter (\<lambda>c. qid (render.questions r ! fst c) = k) cs = []
            then filter (\<lambda>a. questionId a = k) (render.answers r)
            else (case last (filter (\<lambda>c. qid (render.questions r ! fst c) = k) cs) of
                    (i, v, imp, com) \<Rightarrow>
                      [\<lparr>questionId = k, val = v, Answer.isImportant = imp,
                        Answer.comment = (if trim com \<noteq> [] then Some com else None)\<rparr>])))"
proof -
  from commit_all_latest[OF assms] obtain as where as: "commit_all r cs = Inr as"
    "distinct (map questionId as)"
    "\<And>k. filter (\<lambda>a. questionId a = k) as =
           (if filter (\<lambda>c. qid (render.questions r ! fst c) = k) cs = []
            then filter (\<lambda>a. questionId a = k) (render.answers r)
            else [committed (render.questions r)
                    (last (filter (\<lambda>c. qid (render.questions r ! fst c) = k) cs))])"
    by auto
  have "committed (render.questions r) (last (filter (\<lambda>c. qid (render.questions r ! fst c) = k) cs))
      = (case last (filter (\<lambda>c. qid (render.questions r ! fst c) = k) cs) of
           (i, v, imp, com) \<Rightarrow>
             \<lparr>questionId = k, val = v, Answer.isImportant = imp,
              Answer.comment = (if trim com \<noteq> [] then Some com else None)\<rparr>)"
    if "filter (\<lambda>c. qid (render.questions r ! fst c) = k) cs \<noteq> []" for k
  proof -
    from that have "last (filter (\<lambda>c. qid (render.questions r ! fst c) = k) cs)
                      \<in> set (filter (\<lambda>c. qid (render.questions r ! fst c) = k) cs)"
      by (rule last_in_set)
    then have "qid (render.questions r ! fst (last (filter (\<lambda>c. qid (render.questions r ! fst c) = k) cs))) = k"
      by simp
    then show ?thesis
      by (auto simp: committed_def split: prod.splits)
  qed
  with as(3) have "\<And>k. filter (\<lambda>a. questionId a = k) as =
           (if filter (\<lambda>c. qid (render.questions r ! fst c) = k) cs = []
            then filter (\<lambda>a. questionId a = k) (render.answers r)
            else (case last (filter (\<lambda>c. qid (render.questions r ! fst c) = k) cs) of
                    (i, v, imp, com) \<Rightarrow>
                      [\<lparr>questionId = k, val = v, Answer.isImportant = imp,
                        Answer.comment = (if trim com \<noteq> [] then Some com else None)\<rparr>]))"
    by (simp split: prod.splits)
  with as(1,2) show ?thesis by blast
qed

theorem upsert_keeps_latest_witness:
  "commit_all (render.truncate fresh_quiz)
     [(0, 3, False, []), (1, 2, False, []), (0, 5, True, lit ''ok'')]
   = Inr [\<lparr>questionId = 1, val = 5, Answer.isImportant = True, Answer.comment = Some (lit ''ok'')\<rparr>,
          \<lparr>questionId = 2, val = 2, Answer.isImportant = False, Answer.comment = None\<rparr>]"
  using upsert_keeps_latest
    [of "[(0, 3, False, []), (1, 2, False, []), (0, 5, True, lit ''ok'')]" "render.truncate fresh_quiz"]
  by (simp add: fresh_quiz_def mount_Quiz_def question_effect_def two_questions_def
      saveAnswer_def currentQuestion_def answerObject_def example_question_def other_question_def
      trim_def js_whitespace_def lit_def render.truncate_def Let_def)






section \<open>Session orchestration: proofs\<close>

lemma running_run_eq: "running_run = Background clock five_questions [(15, 6), (15, 21), (15, 36)]"
  by (simp add: running_run_def loading_app_def startQuiz_def initial_App_def next_batch_def Let_def)

lemma running_app_eq: "running_app =
   \<lparr>state = QUIZ, questions = five_questions, answers = [], result = None, error = None,
      currentSessionId = clock, localStorage = None\<rparr>"
  by (simp add: running_app_def loading_app_def startQuiz_def initial_App_def next_batch_def Let_def)



lemma merge_questions_eq:
  "merge_questions (uniqueNew acc newQs) prev
     = prev @ filter (\<lambda>q. qid q \<notin> set (map qid acc) \<and> qid q \<notin> set (map qid prev)) newQs"
  by (simp add: merge_questions_def uniqueNew_def Let_def conj_commute)

text \<open>
  C4, as the code has it. When a background batch settles for the current session, the
  visible list is the old one followed by the questions of the batch whose id is neither
  among the accumulated ids nor among the visible ones, in the order of the batch. So every
  question whose id is already accumulated is dropped, the count grows by at most the number
  of batch questions whose id is not accumulated, and the visible ids are the old ones
  together with the ids of the batch that are not accumulated. No error is raised: state,
  error message and answers are unchanged. If the ids of the batch are distinct and so are
  the visible ids, the visible ids stay distinct and the count grows by at most the number
  of genuinely new ids.
\<close>

theorem merge_drops_known_ids:
  assumes "currentSessionId s = sessionId"
  shows "questions (fst (settle (Inr newQs) s (Background sessionId acc batches)))
           = questions s @ filter (\<lambda>q. qid q \<notin> set (map qid acc) \<and> qid q \<notin> set (map qid (questions s))) newQs
       \<and> length (questions (fst (settle (Inr newQs) s (Background sessionId acc batches))))
           \<le> length (questions s) + length (filter (\<lambda>q. qid q \<notin> set (map qid acc)) newQs)
       \<and> set (map qid (questions (fst (settle (Inr newQs) s (Background sessionId acc batches)))))
           = set (map qid (questions s)) \<union> (set (map qid newQs) - set (map qid acc))
       \<and> (distinct (map qid newQs) \<and> distinct (map qid (questions s)) \<longrightarrow>
            distinct (map qid (questions (fst (settle (Inr newQs) s (Background sessionId acc batches)))))
          \<and> length (questions (fst (settle (Inr newQs) s (Background sessionId acc batches))))
              \<le> length (questions s) + card (set (map qid newQs) - set (map qid acc)))
       \<and> state (fst (settle (Inr newQs) s (Background sessionId acc batches))) = state s
       \<and> error (fst (settle (Inr newQs) s (Background sessionId acc batches))) = error s
       \<and> answers (fst (settle (Inr newQs) s (Background sessionId acc batches))) = answers s"
proof -
  define new where
    "new = filter (\<lambda>q. qid q \<notin> set (map qid acc) \<and> qid q \<notin> set (map qid (questions s))) newQs"
  define s' where "s' = fst (settle (Inr newQs) s (Background sessionId acc batches))"
  have q: "questions s' = questions s @ new"
    using assms by (simp add: s'_def new_def Let_def merge_questions_eq)
  have other: "state s' = state s" "error s' = error s" "answers s' = answers s"
    using assms by (simp_all add: s'_def Let_def)
  have "new = filter (\<lambda>q. qid q \<notin> set (map qid (questions s)))
                (filter (\<lambda>q. qid q \<notin> set (map qid acc)) newQs)"
    by (simp add: new_def conj_commute)
  then have "length new \<le> length (filter (\<lambda>q. qid q \<notin> set (map qid acc)) newQs)"
    by (metis length_filter_le)
  then have len: "length (questions s')
         \<le> length (questions s) + length (filter (\<lambda>q. qid q \<notin> set (map qid acc)) newQs)"
    by (simp add: q)
  have ids: "set (map qid (questions s'))
         = set (map qid (questions s)) \<union> (set (map qid newQs) - set (map qid acc))"
    by (auto simp: q new_def image_iff)
  have dist: "distinct (map qid (questions s'))
          \<and> length (questions s') \<le> length (questions s) + card (set (map qid newQs) - set (map qid acc))"
    if d: "distinct (map qid newQs)" "distinct (map qid (questions s))"
  proof -
    have dn: "distinct (map qid new)"
      using d(1) by (simp add: new_def distinct_map_filter)
    have "set (map qid new) \<inter> set (map qid (questions s)) = {}"
      by (auto simp: new_def)
    then have d': "distinct (map qid (questions s'))"
      using d(2) dn by (auto simp: q)
    have "length new = card (set (map qid new))"
      using dn by (metis distinct_card length_map)
    also have "\<dots> \<le> card (set (map qid newQs) - set (map qid acc))"
      by (rule card_mono) (auto simp: new_def)
    finally show ?thesis using d' by (simp add: q)
  qed
  show ?thesis
    using q len ids dist other unfolding s'_def new_def by blast
qed

theorem merge_drops_known_ids_witness:
  "currentSessionId running_app = clock
   \<and> distinct (map qid overlapping_batch) \<and> distinct (map qid (questions running_app))
   \<and> questions (fst (settle (Inr overlapping_batch) running_app running_run))
       = five_questions @ [example_question 6, example_question 7]
   \<and> length (questions (fst (settle (Inr overlapping_batch) running_app running_run)))
       = length (questions running_app) + 2"
  using merge_drops_known_ids [of running_app clock overlapping_batch five_questions "[(15, 6), (15, 21), (15, 36)]"]
  by (simp add: running_run_eq running_app_eq overlapping_batch_def five_questions_def
      example_question_def other_question_def)

text \<open>
  C4 as stated fails for a batch that repeats a new id: with ids 1 to 5 accumulated and
  visible, the batch with ids 1, 6, 6 has one genuinely new id and adds two questions.
\<close>

theorem visible_count_counterexample:
  "length (questions (fst (settle (Inr repeating_batch) running_app running_run)))
     - length (questions running_app) = 2
   \<and> card (set (map qid repeating_batch) - set (map qid (questions running_app))) = 1"
  by (simp add: running_run_eq running_app_eq repeating_batch_def five_questions_def
      example_question_def other_question_def uniqueNew_def merge_questions_def next_batch_def Let_def)

lemma generateQuestions_exhausted:
  "generateQuestions True always_rate_limited = Inl rate_limited"
  by (simp add: generateQuestions_def retry_always_rate_limited)

text \<open>
  C5. Let the call of a background batch be rejected (as it is when the retries of
  \<open>retryOperation\<close> are exhausted). Then the state of \<open>App\<close> is unchanged, so it does
  not move to \<open>ERROR\<close> and every question that has arrived is kept, and the run is over:
  no further batch is requested. A quiz over these questions that shows the last of them
  completes when an answer \<open>v\<close> is committed there, whatever the nominal total is:
  \<open>onComplete\<close> is called with the answers collected so far and the Answer for the last
  question, and \<open>handleQuizComplete\<close> stores them and moves to \<open>ANALYZING\<close>.
\<close>

theorem background_failure_keeps_quiz_completable:
  assumes "generateQuestions hasApiKey operation = Inl e"
    and "render.questions q = questions s" and "questions s \<noteq> []"
    and "currentIndex q = length (questions s) - 1"
  shows "settle (generateQuestions hasApiKey operation) s (Background sessionId acc batches)
           = (s, Returned)
       \<and> (\<exists>finalAnswers. saveAnswer q v = Inr finalAnswers
            \<and> goToNext (render.truncate q) v q = Completed finalAnswers
            \<and> (selectedValue q = Some v \<longrightarrow> handleNextClick q = Completed finalAnswers)
            \<and> find (\<lambda>a. questionId a = qid (last (questions s))) finalAnswers
                 = Some \<lparr>questionId = qid (last (questions s)), val = v,
                        Answer.isImportant = isImportant q,
                        Answer.comment = (if trim (comment q) \<noteq> [] then Some (comment q) else None)\<rparr>
            \<and> filter (\<lambda>a. questionId a \<noteq> qid (last (questions s))) finalAnswers
                 = filter (\<lambda>a. questionId a \<noteq> qid (last (questions s))) (render.answers q)
            \<and> handleQuizComplete finalAnswers s = s\<lparr>answers := finalAnswers, state := ANALYZING\<rparr>)"
proof -
  let ?cq = "render.questions q ! currentIndex q"
  let ?as = "upsert_at (qid ?cq) (answerObject q ?cq v) (render.answers q)"
  have idx: "currentIndex q < length (render.questions q)"
    using assms(2-4) by simp
  have lastq: "?cq = last (questions s)"
    using assms(2-4) by (simp add: last_conv_nth)
  have sv: "saveAnswer q v = Inr ?as"
    using idx by (rule saveAnswer_upsert)
  have g: "goToNext (render.truncate q) v q = Completed ?as"
    using idx assms(2-4) by (simp add: goToNext_eq answerObject_def)
  have h: "handleNextClick q = Completed ?as" if "selectedValue q = Some v"
    using that g by (simp add: handleNextClick_def)
  have f: "find (\<lambda>a. questionId a = qid ?cq) ?as = Some (answerObject q ?cq v)"
    by (simp add: upsert_find answerObject_id)
  have o: "filter (\<lambda>a. questionId a \<noteq> qid ?cq) ?as = filter (\<lambda>a. questionId a \<noteq> qid ?cq) (render.answers q)"
    by (simp add: upsert_filter_neq answerObject_id)
  have st: "settle (generateQuestions hasApiKey operation) s (Background sessionId acc batches) = (s, Returned)"
    by (simp add: assms(1))
  show ?thesis
    using sv g h f o st unfolding lastq by (simp add: answerObject_def handleQuizComplete_def)
qed

theorem background_failure_keeps_quiz_completable_witness:
  "generateQuestions True always_rate_limited = Inl rate_limited
   \<and> state running_app = QUIZ \<and> length (questions running_app) = 5
   \<and> finalCount last_question_quiz = 50
   \<and> settle (generateQuestions True always_rate_limited) running_app running_run = (running_app, Returned)
   \<and> handleNextClick last_question_quiz = Completed five_answers
   \<and> state (handleQuizComplete five_answers running_app) = ANALYZING
   \<and> answers (handleQuizComplete five_answers running_app) = five_answers"
  using background_failure_keeps_quiz_completable
    [of True always_rate_limited rate_limited last_question_quiz running_app clock
        five_questions "[(15, 6), (15, 21), (15, 36)]" 5]
  by (simp add: generateQuestions_exhausted running_run_eq running_app_eq last_question_quiz_def
      five_answers_def five_questions_def handleNextClick_def goToNext_def saveAnswer_def
      answerObject_def currentQuestion_def finalCount_def handleQuizComplete_def
      TARGET_QUESTIONS_def example_question_def trim_def render.truncate_def Let_def)

text \<open>
  C6, as the code has it. The token minted by \<open>startQuiz\<close> is the reading of the clock
  at its call, whatever the state; so the token of a later start is strictly greater than
  the token of an earlier one exactly when the clock reading is.
\<close>

theorem token_is_clock_reading:
  "currentSessionId (fst (startQuiz now s)) = now
   \<and> snd (startQuiz now s) = Initial now
   \<and> (currentSessionId (fst (startQuiz now s)) < currentSessionId (fst (startQuiz now' s'))
        \<longleftrightarrow> now < now')"
  by (simp add: startQuiz_def Let_def)

text \<open>
  C6 as stated fails when the clock does not advance between two starts: a second start at
  the same reading, or at an earlier one, mints a token that is not strictly greater.
\<close>

theorem token_not_monotone_counterexample:
  "\<not> currentSessionId loading_app
       < currentSessionId (fst (startQuiz clock (restart True running_app)))
   \<and> \<not> currentSessionId loading_app
       < currentSessionId (fst (startQuiz (clock - 1000) (restart True running_app)))"
  by (simp add: loading_app_def startQuiz_def clock_def Let_def)




lemma findIndex_zero:
  "xs \<noteq> [] \<Longrightarrow> findIndex P xs = Some 0 \<longleftrightarrow> P (hd xs)"
  by (cases xs) auto

text \<open>
  C9, as the code has it. The button that continues a session is there in state \<open>INTRO\<close>
  with a non-empty question list. With a result it moves to \<open>RESULTS\<close>. Without one it
  moves to \<open>QUIZ\<close>, and the quiz is mounted on the first question (index 0) with an empty
  answer list of its own, whatever answers are stored; nothing else of the state changes.
  Index 0 is the first question without a stored Answer exactly when no stored Answer has
  the id of the first question.
\<close>

theorem resume_target:
  assumes "state s = INTRO" and "questions s \<noteq> []"
  shows "(result s \<noteq> None \<longrightarrow> state (resume s) = RESULTS \<and> quiz_of (resume s) = None)
       \<and> (result s = None \<longrightarrow> state (resume s) = QUIZ
            \<and> (\<exists>q. quiz_of (resume s) = Some q \<and> currentIndex q = 0
                 \<and> render.questions q = questions s \<and> render.answers q = []
                 \<and> selectedValue q = None))
       \<and> resume s = s\<lparr>state := state (resume s)\<rparr>
       \<and> (first_unanswered (questions s) (answers s) = Some 0
            \<longleftrightarrow> (\<forall>a \<in> set (answers s). questionId a \<noteq> qid (hd (questions s))))"
proof -
  have a: "result s \<noteq> None \<Longrightarrow> state (resume s) = RESULTS \<and> quiz_of (resume s) = None"
    using assms by (simp add: resume_def quiz_of_def)
  have b: "result s = None \<Longrightarrow> state (resume s) = QUIZ
            \<and> (\<exists>q. quiz_of (resume s) = Some q \<and> currentIndex q = 0
                 \<and> render.questions q = questions s \<and> render.answers q = []
                 \<and> selectedValue q = None)"
    using assms by (simp add: resume_def quiz_of_def mount_Quiz_def question_effect_def)
  have c: "resume s = s\<lparr>state := state (resume s)\<rparr>"
    by (simp add: resume_def)
  have d: "first_unanswered (questions s) (answers s) = Some 0
            \<longleftrightarrow> (\<forall>a \<in> set (answers s). questionId a \<noteq> qid (hd (questions s)))"
    using assms(2) by (auto simp: first_unanswered_def findIndex_zero find_None_iff)
  show ?thesis using a b c d by blast
qed

theorem resume_target_witness:
  "state (loading_app\<lparr>state := INTRO, questions := two_questions\<rparr>) = INTRO
   \<and> state (resume (loading_app\<lparr>state := INTRO, questions := two_questions\<rparr>)) = QUIZ
   \<and> map_option currentIndex (quiz_of (resume (loading_app\<lparr>state := INTRO, questions := two_questions\<rparr>))) = Some 0
   \<and> first_unanswered two_questions [] = Some 0
   \<and> state (resume (loading_app\<lparr>state := INTRO, questions := two_questions, result := Some ()\<rparr>)) = RESULTS"
  using resume_target [of "loading_app\<lparr>state := INTRO, questions := two_questions\<rparr>"]
        resume_target [of "loading_app\<lparr>state := INTRO, questions := two_questions, result := Some ()\<rparr>"]
  by (simp add: loading_app_def startQuiz_def initial_App_def two_questions_def first_unanswered_def
     resume_def quiz_of_def mount_Quiz_def question_effect_def Let_def)

text \<open>
  C9 as stated fails in its last part: with two questions and a stored Answer for the first,
  the quiz is shown at index 0 while the first question without a stored Answer has index 1.
\<close>

theorem resume_index_counterexample:
  "state answered_first_app = INTRO
   \<and> state (resume answered_first_app) = QUIZ
   \<and> map_option currentIndex (quiz_of (resume answered_first_app)) = Some 0
   \<and> first_unanswered (questions answered_first_app) (answers answered_first_app) = Some 1"
  by (simp add: answered_first_app_def load_session_def initial_App_def TTL_def resume_def
      quiz_of_def mount_Quiz_def question_effect_def first_unanswered_def two_questions_def
      example_question_def other_question_def)

end
